theory Spec2Isabelle
  imports Complex_Main
begin

section \<open>JavaScript numbers\<close>

text \<open>
  The TypeScript type \<open>number\<close> of the measured quantities (volume, pitch, spectral
  centroid, similarities, profile averages) is modelled by \<open>jsnum\<close>: a finite value, one
  of the two infinities, or NaN. Finite values are exact reals: the rounding of IEEE
  doubles and the sign of zero are not modelled. The special values follow IEEE 754 as
  ECMAScript reads it: NaN propagates through arithmetic, every comparison with NaN is
  false, \<open>0 / 0\<close> and \<open>\<infinity> - \<infinity>\<close> and \<open>0 * \<infinity>\<close> are NaN, a nonzero finite value divided
  by zero is an infinity.

  Counters and identifiers (speaker ids, \<open>speakerCount\<close>, \<open>maxSpeakers\<close>, \<open>samples\<close>,
  loop indices, timestamps in milliseconds) are integers in the program and are modelled
  by \<open>int\<close> and \<open>nat\<close>.
\<close>

datatype jsnum = Num real | PosInf | NegInf | NaN

definition inf_of :: "bool \<Rightarrow> jsnum" where
  "inf_of positive = (if positive then PosInf else NegInf)"

instantiation jsnum :: "{zero, plus, uminus, times, inverse, abs, ord}"
begin

definition zero_jsnum :: jsnum where
  "zero_jsnum = Num 0"

fun plus_jsnum :: "jsnum \<Rightarrow> jsnum \<Rightarrow> jsnum" where
  "plus_jsnum NaN y = NaN"
| "plus_jsnum x NaN = NaN"
| "plus_jsnum (Num a) (Num b) = Num (a + b)"
| "plus_jsnum PosInf NegInf = NaN"
| "plus_jsnum NegInf PosInf = NaN"
| "plus_jsnum PosInf y = PosInf"
| "plus_jsnum x PosInf = PosInf"
| "plus_jsnum NegInf y = NegInf"
| "plus_jsnum x NegInf = NegInf"

fun uminus_jsnum :: "jsnum \<Rightarrow> jsnum" where
  "uminus_jsnum (Num a) = Num (- a)"
| "uminus_jsnum PosInf = NegInf"
| "uminus_jsnum NegInf = PosInf"
| "uminus_jsnum NaN = NaN"

fun times_jsnum :: "jsnum \<Rightarrow> jsnum \<Rightarrow> jsnum" where
  "times_jsnum NaN y = NaN"
| "times_jsnum x NaN = NaN"
| "times_jsnum (Num a) (Num b) = Num (a * b)"
| "times_jsnum (Num a) PosInf = (if a = 0 then NaN else inf_of (0 < a))"
| "times_jsnum (Num a) NegInf = (if a = 0 then NaN else inf_of (a < 0))"
| "times_jsnum PosInf (Num b) = (if b = 0 then NaN else inf_of (0 < b))"
| "times_jsnum NegInf (Num b) = (if b = 0 then NaN else inf_of (b < 0))"
| "times_jsnum PosInf PosInf = PosInf"
| "times_jsnum PosInf NegInf = NegInf"
| "times_jsnum NegInf PosInf = NegInf"
| "times_jsnum NegInf NegInf = PosInf"

fun divide_jsnum :: "jsnum \<Rightarrow> jsnum \<Rightarrow> jsnum" where
  "divide_jsnum NaN y = NaN"
| "divide_jsnum x NaN = NaN"
| "divide_jsnum (Num a) (Num b) =
     (if b \<noteq> 0 then Num (a / b) else if a = 0 then NaN else inf_of (0 < a))"
| "divide_jsnum (Num a) PosInf = Num 0"
| "divide_jsnum (Num a) NegInf = Num 0"
| "divide_jsnum PosInf (Num b) = inf_of (0 \<le> b)"
| "divide_jsnum NegInf (Num b) = inf_of (b < 0)"
| "divide_jsnum PosInf y = NaN"
| "divide_jsnum NegInf y = NaN"

fun inverse_jsnum :: "jsnum \<Rightarrow> jsnum" where
  "inverse_jsnum (Num b) = (if b \<noteq> 0 then Num (1 / b) else PosInf)"
| "inverse_jsnum PosInf = Num 0"
| "inverse_jsnum NegInf = Num 0"
| "inverse_jsnum NaN = NaN"

fun abs_jsnum :: "jsnum \<Rightarrow> jsnum" where
  "abs_jsnum (Num a) = Num \<bar>a\<bar>"
| "abs_jsnum PosInf = PosInf"
| "abs_jsnum NegInf = PosInf"
| "abs_jsnum NaN = NaN"

fun less_jsnum :: "jsnum \<Rightarrow> jsnum \<Rightarrow> bool" where
  "less_jsnum NaN y = False"
| "less_jsnum x NaN = False"
| "less_jsnum (Num a) (Num b) = (a < b)"
| "less_jsnum x NegInf = False"
| "less_jsnum PosInf y = False"
| "less_jsnum NegInf y = True"
| "less_jsnum x PosInf = True"

fun less_eq_jsnum :: "jsnum \<Rightarrow> jsnum \<Rightarrow> bool" where
  "less_eq_jsnum NaN y = False"
| "less_eq_jsnum x NaN = False"
| "less_eq_jsnum (Num a) (Num b) = (a \<le> b)"
| "less_eq_jsnum NegInf y = True"
| "less_eq_jsnum x PosInf = True"
| "less_eq_jsnum x NegInf = False"
| "less_eq_jsnum PosInf y = False"

instance ..

end

instantiation jsnum :: minus
begin

definition minus_jsnum :: "jsnum \<Rightarrow> jsnum \<Rightarrow> jsnum" where
  "minus_jsnum x y = x + (- y)"

instance ..

end

text \<open>
  Without rounding, addition of these numbers is associative and commutative and \<open>0\<close> is
  neutral (also with the infinities and NaN), so sums over lists may be written with
  \<open>sum_list\<close>.
\<close>

lemma js_add_assoc: "(x + y) + z = x + (y + z)" for x y z :: jsnum
  by (cases x; cases y; cases z; simp)

lemma js_add_commute: "x + y = y + x" for x y :: jsnum
  by (cases x; cases y; simp)

lemma js_add_zero_left: "0 + x = x" for x :: jsnum
  unfolding zero_jsnum_def by (cases x; simp)

instance jsnum :: comm_monoid_add
  by standard (fact js_add_assoc js_add_commute js_add_zero_left)+

text \<open>\<open>Math.max(a, b)\<close>, \<open>Math.sqrt(x)\<close> and \<open>Math.pow(x, 2)\<close>.\<close>

definition js_max :: "jsnum \<Rightarrow> jsnum \<Rightarrow> jsnum" where
  "js_max x y = (if x = NaN \<or> y = NaN then NaN else if x < y then y else x)"

fun js_sqrt :: "jsnum \<Rightarrow> jsnum" where
  "js_sqrt (Num a) = (if a < 0 then NaN else Num (sqrt a))"
| "js_sqrt PosInf = PosInf"
| "js_sqrt NegInf = NaN"
| "js_sqrt NaN = NaN"

definition js_square :: "jsnum \<Rightarrow> jsnum" where
  "js_square x = x * x"

text \<open>
  Reading \<open>a[i]\<close> from an array-like of numbers: outside \<open>0 .. a.length - 1\<close> the read
  gives \<open>undefined\<close>, which every arithmetic operation turns into NaN.
\<close>

definition js_at :: "jsnum list \<Rightarrow> int \<Rightarrow> jsnum" where
  "js_at a i = (if 0 \<le> i \<and> i < int (length a) then a ! nat i else NaN)"

section \<open>Data model (types)\<close>

record AudioFeatures =
  volume :: jsnum
  pitch :: jsnum
  spectralCentroid :: jsnum
  zeroCrossingRate :: jsnum
  mfcc :: "jsnum list"
  frequencyData :: "nat list"
  waveformData :: "nat list"

record VoiceProfile =
  speakerId :: int
  avgPitch :: jsnum
  avgSpectralCentroid :: jsnum
  pitchVariance :: jsnum
  samples :: nat

section \<open>Speaker detection (utils/speakerDetection.ts)\<close>

definition PROFILE_SAMPLES_THRESHOLD :: nat where
  "PROFILE_SAMPLES_THRESHOLD = 10"

definition SPEAKER_CHANGE_THRESHOLD :: jsnum where
  "SPEAKER_CHANGE_THRESHOLD = Num 0.4"

text \<open>
  \<open>profiles\<close> is a JavaScript \<open>Map\<close>, which iterates in insertion order; the loop of
  \<open>detectSpeaker\<close> depends on that order, so the map is an association list.
  \<open>map_set\<close> is \<open>Map.prototype.set\<close>: an existing key keeps its position, a new key goes
  to the end. \<open>map_get\<close> and \<open>map_has\<close> are \<open>get\<close> and \<open>has\<close>.
\<close>

type_synonym profile_map = "(int \<times> VoiceProfile) list"

fun map_set :: "profile_map \<Rightarrow> int \<Rightarrow> VoiceProfile \<Rightarrow> profile_map" where
  "map_set [] k v = [(k, v)]"
| "map_set ((k', v') # rest) k v =
     (if k' = k then (k, v) # rest else (k', v') # map_set rest k v)"

definition map_get :: "profile_map \<Rightarrow> int \<Rightarrow> VoiceProfile option" where
  "map_get m k = map_of m k"

definition map_has :: "profile_map \<Rightarrow> int \<Rightarrow> bool" where
  "map_has m k = (map_of m k \<noteq> None)"

record SpeakerDetector =
  profiles :: profile_map
  currentSpeakerId :: "int option"
  lastFeatures :: "AudioFeatures option"
  speakerCount :: int
  maxSpeakers :: int

definition createSpeakerDetector :: "int \<Rightarrow> SpeakerDetector" where
  "createSpeakerDetector k =
     \<lparr> profiles = [], currentSpeakerId = None, lastFeatures = None,
       speakerCount = 0, maxSpeakers = k \<rparr>"

definition calculateSimilarity :: "AudioFeatures \<Rightarrow> VoiceProfile \<Rightarrow> jsnum" where
  "calculateSimilarity features profile =
     (if samples profile < PROFILE_SAMPLES_THRESHOLD then Num 0.5
      else
        let pitchDiff = \<bar>pitch features - avgPitch profile\<bar>;
            pitchSimilarity = js_max (Num 0) (Num 1 - pitchDiff / Num 150);
            spectralDiff = \<bar>spectralCentroid features - avgSpectralCentroid profile\<bar>;
            spectralSimilarity = js_max (Num 0) (Num 1 - spectralDiff / Num 1000)
        in pitchSimilarity * Num 0.6 + spectralSimilarity * Num 0.4)"

definition updateProfile :: "VoiceProfile \<Rightarrow> AudioFeatures \<Rightarrow> VoiceProfile" where
  "updateProfile profile features =
     (let alpha = min (0.1 :: real) (1 / (real (samples profile) + 1));
          newAvgPitch = avgPitch profile * Num (1 - alpha) + pitch features * Num alpha;
          newAvgSpectral =
            avgSpectralCentroid profile * Num (1 - alpha) + spectralCentroid features * Num alpha;
          pitchVariance' =
            pitchVariance profile * Num (1 - alpha)
              + js_square (pitch features - newAvgPitch) * Num alpha
      in profile \<lparr> avgPitch := newAvgPitch, avgSpectralCentroid := newAvgSpectral,
                   pitchVariance := pitchVariance', samples := samples profile + 1 \<rparr>)"

definition createProfile :: "int \<Rightarrow> AudioFeatures \<Rightarrow> VoiceProfile" where
  "createProfile sid features =
     \<lparr> speakerId = sid, avgPitch = pitch features,
       avgSpectralCentroid = spectralCentroid features, pitchVariance = Num 0, samples = 1 \<rparr>"

record DetectResult =
  dr_speakerId :: int
  dr_isNew :: bool
  dr_confidence :: jsnum

text \<open>
  The \<open>for (const [speakerId, profile] of detector.profiles)\<close> loop of \<open>detectSpeaker\<close>;
  the accumulator is \<open>(bestSpeakerId, bestSimilarity)\<close>.
\<close>

fun best_match :: "AudioFeatures \<Rightarrow> profile_map \<Rightarrow> int \<times> jsnum \<Rightarrow> int \<times> jsnum" where
  "best_match features [] best = best"
| "best_match features ((sid, profile) # rest) (bestSpeakerId, bestSimilarity) =
     (let similarity = calculateSimilarity features profile
      in if bestSimilarity < similarity
         then best_match features rest (sid, similarity)
         else best_match features rest (bestSpeakerId, bestSimilarity))"

definition detectSpeaker :: "SpeakerDetector \<Rightarrow> AudioFeatures \<Rightarrow> DetectResult" where
  "detectSpeaker detector features =
     (if pitch features < Num 60 \<or> Num 400 < pitch features
      then \<lparr> dr_speakerId = (case currentSpeakerId detector of Some c \<Rightarrow> c | None \<Rightarrow> - 1),
             dr_isNew = False, dr_confidence = Num 0 \<rparr>
      else
        let (bestSpeakerId, bestSimilarity) = best_match features (profiles detector) (- 1, Num 0)
        in if bestSimilarity < SPEAKER_CHANGE_THRESHOLD
              \<and> speakerCount detector < maxSpeakers detector
           then \<lparr> dr_speakerId = speakerCount detector, dr_isNew = True,
                  dr_confidence = bestSimilarity \<rparr>
           else if bestSimilarity < SPEAKER_CHANGE_THRESHOLD
           then \<lparr> dr_speakerId = (if bestSpeakerId = - 1 then 0 else bestSpeakerId),
                  dr_isNew = False, dr_confidence = bestSimilarity \<rparr>
           else \<lparr> dr_speakerId = bestSpeakerId, dr_isNew = False,
                  dr_confidence = bestSimilarity \<rparr>)"

record ProcessResult =
  detector :: SpeakerDetector
  pr_speakerId :: int
  isNewSpeaker :: bool
  confidence :: jsnum

definition processSpeakerDetection :: "SpeakerDetector \<Rightarrow> AudioFeatures \<Rightarrow> ProcessResult" where
  "processSpeakerDetection det features =
     (let r = detectSpeaker det features;
          sid = dr_speakerId r;
          isNew = dr_isNew r;
          newProfiles =
            (if 0 \<le> sid then
               if isNew then map_set (profiles det) sid (createProfile sid features)
               else if map_has (profiles det) sid then
                 (case map_get (profiles det) sid of
                    Some existingProfile \<Rightarrow>
                      map_set (profiles det) sid (updateProfile existingProfile features)
                  | None \<Rightarrow> profiles det)
               else profiles det
             else profiles det)
      in \<lparr> detector =
             \<lparr> profiles = newProfiles,
               currentSpeakerId = (if 0 \<le> sid then Some sid else currentSpeakerId det),
               lastFeatures = Some features,
               speakerCount = (if isNew then speakerCount det + 1 else speakerCount det),
               maxSpeakers = maxSpeakers det \<rparr>,
           pr_speakerId = sid, isNewSpeaker = isNew, confidence = dr_confidence r \<rparr>)"

definition resetDetector :: "int \<Rightarrow> SpeakerDetector" where
  "resetDetector k = createSpeakerDetector k"

section \<open>Feature extraction and voice activity (utils/audioUtils.ts)\<close>

text \<open>
  Buffers of samples are lists of \<open>jsnum\<close> (a \<open>Float32Array\<close> can hold NaN and the
  infinities); \<open>sampleRate\<close> and \<open>fftSize\<close> are finite numbers, modelled as reals.
\<close>

definition calculateRMS :: "jsnum list \<Rightarrow> jsnum" where
  "calculateRMS dataArray =
     (let sumSq = foldl (\<lambda>acc x. acc + x * x) (Num 0) dataArray
      in js_sqrt (sumSq / Num (real (length dataArray))))"

text \<open>The loop of \<open>calculateZeroCrossingRate\<close> over \<open>i = 1 .. length - 1\<close>, counting.\<close>

fun count_crossings :: "jsnum list \<Rightarrow> nat" where
  "count_crossings (prev # cur # rest) =
     (if (Num 0 \<le> cur \<and> prev < Num 0) \<or> (cur < Num 0 \<and> Num 0 \<le> prev)
      then Suc (count_crossings (cur # rest))
      else count_crossings (cur # rest))"
| "count_crossings dataArray = 0"

definition calculateZeroCrossingRate :: "jsnum list \<Rightarrow> jsnum" where
  "calculateZeroCrossingRate dataArray =
     Num (real (count_crossings dataArray)) / Num (real (length dataArray))"

text \<open>
  The loop of \<open>calculateSpectralCentroid\<close>: \<open>i\<close> is the index of the head of the remaining
  list, the accumulator is \<open>(weightedSum, sum)\<close> (the source's
  \<open>sum\<close> is written \<open>magSum\<close>, \<open>sum\<close> being a constant of HOL).
\<close>

fun centroid_loop :: "jsnum list \<Rightarrow> jsnum \<Rightarrow> nat \<Rightarrow> jsnum \<times> jsnum \<Rightarrow> jsnum \<times> jsnum" where
  "centroid_loop [] binFrequency i acc = acc"
| "centroid_loop (magnitude # rest) binFrequency i (weightedSum, magSum) =
     (let frequency = Num (real i) * binFrequency
      in centroid_loop rest binFrequency (Suc i)
           (weightedSum + magnitude * frequency, magSum + magnitude))"

definition calculateSpectralCentroid :: "jsnum list \<Rightarrow> real \<Rightarrow> real \<Rightarrow> jsnum" where
  "calculateSpectralCentroid freqData sampleRate fftSize =
     (let binFrequency = Num sampleRate / Num fftSize;
          (weightedSum, magSum) = centroid_loop freqData binFrequency 0 (Num 0, Num 0)
      in if Num 0 < magSum then weightedSum / magSum else Num 0)"

text \<open>
  \<open>estimatePitch\<close>. \<open>correlation_at\<close> is the inner loop for one lag, over
  \<open>i = 0 .. length - period - 1\<close>; \<open>pitch_loop\<close> is the outer loop over
  \<open>period = minPeriod, minPeriod + 1, ...\<close> while \<open>period < maxPeriod\<close> and
  \<open>period < length\<close>, with the accumulator \<open>(bestCorrelation, bestPeriod)\<close>.
\<close>

definition correlation_at :: "jsnum list \<Rightarrow> int \<Rightarrow> jsnum" where
  "correlation_at dataArray period =
     foldl (\<lambda>correlation i. correlation + js_at dataArray i * js_at dataArray (i + period))
       (Num 0) [0 .. int (length dataArray) - period - 1]"

function pitch_loop :: "jsnum list \<Rightarrow> int \<Rightarrow> int \<Rightarrow> jsnum \<times> int \<Rightarrow> jsnum \<times> int" where
  "pitch_loop dataArray maxPeriod period (bestCorrelation, bestPeriod) =
     (if period < maxPeriod \<and> period < int (length dataArray) then
        let correlation = correlation_at dataArray period
        in if bestCorrelation < correlation
           then pitch_loop dataArray maxPeriod (period + 1) (correlation, period)
           else pitch_loop dataArray maxPeriod (period + 1) (bestCorrelation, bestPeriod)
      else (bestCorrelation, bestPeriod))"
  by pat_completeness auto
termination
  by (relation "measure (\<lambda>(dataArray, maxPeriod, period, best). nat (maxPeriod - period))") auto

definition minPeriod :: "real \<Rightarrow> int" where
  "minPeriod sampleRate = \<lfloor>sampleRate / 500\<rfloor>"

definition maxPeriod :: "real \<Rightarrow> int" where
  "maxPeriod sampleRate = \<lfloor>sampleRate / 50\<rfloor>"

definition estimatePitch :: "jsnum list \<Rightarrow> real \<Rightarrow> jsnum" where
  "estimatePitch dataArray sampleRate =
     (let (bestCorrelation, bestPeriod) =
            pitch_loop dataArray (maxPeriod sampleRate) (minPeriod sampleRate) (Num 0, 0)
      in if 0 < bestPeriod then Num sampleRate / Num (real_of_int bestPeriod) else Num 0)"

text \<open>
  \<open>calculateMelBandEnergies\<close>. The filter edges are computed from the sample rate with
  \<open>Math.log10\<close> and \<open>Math.pow\<close>, here the real logarithm and power; the model is for positive
  sample rates, where every edge is a finite number. \<open>bin_of freq maxFreq n\<close> is
  \<open>Math.floor(freq / binWidth)\<close> with \<open>binWidth = maxFreq / n\<close> for a spectrum of \<open>n\<close> bins:
  for \<open>n = 0\<close> the bin width is \<open>+\<infinity>\<close> and the quotient is 0.
\<close>

definition freqToMel :: "real \<Rightarrow> real" where
  "freqToMel f = 2595 * log 10 (1 + f / 700)"

definition melToFreq :: "real \<Rightarrow> real" where
  "melToFreq m = 700 * (10 powr (m / 2595) - 1)"

definition bin_of :: "real \<Rightarrow> real \<Rightarrow> nat \<Rightarrow> int" where
  "bin_of freq maxFreq n = (if n = 0 then 0 else \<lfloor>freq / (maxFreq / real n)\<rfloor>)"

text \<open>
  The triangular weight of one bin. Inside the loop \<open>binStart \<le> bin \<le> binEnd\<close>, so the
  divisor of the first branch is at least 2 and that of the second at least 1.
\<close>

definition filter_weight :: "int \<Rightarrow> int \<Rightarrow> int \<Rightarrow> int \<Rightarrow> real" where
  "filter_weight binStart binCenter binEnd bin =
     (if bin < binCenter
      then real_of_int (bin - binStart) / real_of_int (binCenter - binStart + 1)
      else real_of_int (binEnd - bin) / real_of_int (binEnd - binCenter + 1))"

text \<open>The body of the loop over \<open>band\<close>: the energy of one band.\<close>

definition band_energy :: "jsnum list \<Rightarrow> real \<Rightarrow> nat \<Rightarrow> nat \<Rightarrow> jsnum" where
  "band_energy freqData sampleRate numBands band =
     (let maxFreq = sampleRate / 2;
          minMel = freqToMel 20;
          maxMel = freqToMel maxFreq;
          melStep = (maxMel - minMel) / (real numBands + 1);
          melStart = minMel + real band * melStep;
          melCenter = minMel + (real band + 1) * melStep;
          melEnd = minMel + (real band + 2) * melStep;
          freqStart = melToFreq melStart;
          freqCenter = melToFreq melCenter;
          freqEnd = melToFreq melEnd;
          binStart = bin_of freqStart maxFreq (length freqData);
          binCenter = bin_of freqCenter maxFreq (length freqData);
          binEnd = min (bin_of freqEnd maxFreq (length freqData)) (int (length freqData) - 1)
      in foldl (\<lambda>energy bin.
                  energy + js_at freqData bin * Num (filter_weight binStart binCenter binEnd bin))
           (Num 0) [binStart .. binEnd])"

text \<open>\<open>Math.max(...xs)\<close>: NaN if an argument is NaN, \<open>-\<infinity>\<close> without arguments.\<close>

definition js_max_list :: "jsnum list \<Rightarrow> jsnum" where
  "js_max_list xs = foldl js_max NegInf xs"

definition calculateMelBandEnergies :: "jsnum list \<Rightarrow> real \<Rightarrow> nat \<Rightarrow> jsnum list" where
  "calculateMelBandEnergies freqData sampleRate numBands =
     (let bands = map (band_energy freqData sampleRate numBands) [0 ..< numBands];
          maxEnergy = js_max_list (bands @ [Num 1])
      in map (\<lambda>e. e / maxEnergy) bands)"

text \<open>
  \<open>extractAudioFeatures\<close>, after the analyser has filled the two buffers: \<open>timeDomainData\<close>
  is the \<open>Float32Array\<close> and \<open>freqBytes\<close> the \<open>Uint8Array\<close>. \<open>waveform_byte x\<close> is the store
  of \<open>Math.floor((x + 1) * 128)\<close> into a \<open>Uint8Array\<close>: modulo 256, and 0 for NaN and the
  infinities.
\<close>

fun waveform_byte :: "jsnum \<Rightarrow> nat" where
  "waveform_byte (Num x) = nat (\<lfloor>(x + 1) * 128\<rfloor> mod 256)"
| "waveform_byte x = 0"

definition extractAudioFeatures ::
    "jsnum list \<Rightarrow> nat list \<Rightarrow> real \<Rightarrow> real \<Rightarrow> AudioFeatures" where
  "extractAudioFeatures timeDomainData freqBytes sampleRate fftSize =
     \<lparr> volume = calculateRMS timeDomainData,
       pitch = estimatePitch timeDomainData sampleRate,
       spectralCentroid =
         calculateSpectralCentroid (map (\<lambda>b. Num (real b)) freqBytes) sampleRate fftSize,
       zeroCrossingRate = calculateZeroCrossingRate timeDomainData,
       mfcc = calculateMelBandEnergies (map (\<lambda>b. Num (real b)) freqBytes) sampleRate 13,
       frequencyData = freqBytes,
       waveformData = map waveform_byte timeDomainData \<rparr>"

definition detectVoiceActivity :: "AudioFeatures \<Rightarrow> jsnum \<Rightarrow> bool" where
  "detectVoiceActivity features silenceThreshold =
     (let hasSignificantVolume = silenceThreshold < volume features
      in if Num 0.02 < volume features then True
         else
           let hasPitch = Num 50 < pitch features \<and> pitch features < Num 600;
               hasFrequencyContent = Num 100 < spectralCentroid features
           in hasSignificantVolume \<and> (hasPitch \<or> hasFrequencyContent))"

section \<open>The frame loop (hooks/useAudioProcessor.ts)\<close>

text \<open>
  The hook keeps one detector per session and threads it through the frames
  (\<open>speakerDetectorRef.current = result.detector\<close>). \<open>process_all\<close> is that loop over a
  list of feature vectors: it returns the last detector and every result, in order.
\<close>

fun process_all :: "SpeakerDetector \<Rightarrow> AudioFeatures list \<Rightarrow> SpeakerDetector \<times> ProcessResult list" where
  "process_all det [] = (det, [])"
| "process_all det (features # rest) =
     (let result = processSpeakerDetection det features;
          (final, results) = process_all (detector result) rest
      in (final, result # results))"

datatype SessionStatus = idle | running | paused | stopped

record Speaker =
  id' :: int
  name :: string
  color :: "string option"
  totalTime :: int
  isActive :: bool
  lastActiveTime :: "int option"

definition SPEAKER_COLORS :: "string list" where
  "SPEAKER_COLORS = [''#3b82f6'', ''#10b981'', ''#f59e0b'', ''#ef4444'', ''#8b5cf6'']"

text \<open>The two fields of \<open>DEFAULT_SPEAKER_CONFIG\<close> that the frame loop reads.\<close>

definition DEFAULT_minSpeechDuration :: int where
  "DEFAULT_minSpeechDuration = 50"

definition DEFAULT_silenceThreshold :: jsnum where
  "DEFAULT_silenceThreshold = Num 0.008"

text \<open>
  The state of the hook that the frame loop reads and writes: the React state
  (\<open>st_\<close> fields) and the refs. Timestamps are the integers of \<open>Date.now()\<close>. The callbacks
  \<open>onSpeakerChange\<close> and \<open>onVoiceActivity\<close> and the audio nodes are outside the model.
\<close>

record HookState =
  st_status :: SessionStatus
  st_speakers :: "Speaker list"
  st_currentSpeakerId :: "int option"
  st_audioFeatures :: "AudioFeatures option"
  st_isVoiceActive :: bool
  speakerDetectorRef :: SpeakerDetector
  lastSpeakerIdRef :: "int option"
  lastSpeakingTimeRef :: int
  speakersRef :: "Speaker list"

text \<open>The decimal digits of a number, for the template string \<open>`Speaker ${speakerId + 1}`\<close>.\<close>

fun decimal :: "nat \<Rightarrow> string" where
  "decimal n =
     (if n < 10 then [char_of (48 + n)] else decimal (n div 10) @ [char_of (48 + n mod 10)])"

text \<open>
  \<open>addSpeaker\<close>; \<open>cap\<close> is the \<open>maxSpeakers\<close> option of the hook and \<open>sid\<close> the
  \<open>speakerId\<close> argument. \<open>SPEAKER_COLORS[speakerId]\<close> is \<open>undefined\<close> from index 5 on. The sort of the roster by \<open>id\<close> is stable.
\<close>

definition addSpeaker :: "int \<Rightarrow> HookState \<Rightarrow> int \<Rightarrow> HookState" where
  "addSpeaker cap st sid =
     (if sid < 0 \<or> cap \<le> sid then st
      else if find (\<lambda>s. id' s = sid) (speakersRef st) \<noteq> None then st
      else
        let newSpeaker =
              \<lparr> id' = sid,
                name = ''Speaker '' @ decimal (nat (sid + 1)),
                color = (if nat sid < length SPEAKER_COLORS
                         then Some (SPEAKER_COLORS ! nat sid) else None),
                totalTime = 0, isActive = False, lastActiveTime = None \<rparr>;
            roster = sort_key id' (speakersRef st @ [newSpeaker])
        in st \<lparr> speakersRef := roster, st_speakers := roster \<rparr>)"

text \<open>
  \<open>processAudioFrame\<close> from the point where the features of the frame are known;
  \<open>now\<close> is the value of \<open>Date.now()\<close> read in the frame.
\<close>

definition frame_step :: "int \<Rightarrow> HookState \<Rightarrow> AudioFeatures \<Rightarrow> int \<Rightarrow> HookState" where
  "frame_step cap st features now =
     (let st1 = st \<lparr> st_audioFeatures := Some features \<rparr>;
          voiceActive = detectVoiceActivity features DEFAULT_silenceThreshold;
          st2 = st1 \<lparr> st_isVoiceActive := voiceActive \<rparr>
      in if voiceActive then
           let result = processSpeakerDetection (speakerDetectorRef st2) features;
               st3 = st2 \<lparr> speakerDetectorRef := detector result \<rparr>;
               detectedSpeakerId = pr_speakerId result
           in if 0 \<le> detectedSpeakerId \<and> detectedSpeakerId < cap then
                let st4 = (if isNewSpeaker result
                              \<and> find (\<lambda>s. id' s = detectedSpeakerId) (speakersRef st3) = None
                           then addSpeaker cap st3 detectedSpeakerId else st3);
                    st5 = (case lastSpeakerIdRef st4 of
                             None \<Rightarrow> st4
                           | Some lastId \<Rightarrow>
                               if lastId \<noteq> detectedSpeakerId then
                                 let elapsed = now - lastSpeakingTimeRef st4
                                 in st4 \<lparr> speakersRef :=
                                      map (\<lambda>s. if id' s = lastId
                                                then s \<lparr> totalTime := totalTime s + elapsed,
                                                         isActive := False \<rparr>
                                                else s) (speakersRef st4) \<rparr>
                               else st4);
                    st6 = (if lastSpeakerIdRef st5 \<noteq> Some detectedSpeakerId
                           then st5 \<lparr> lastSpeakingTimeRef := now \<rparr> else st5);
                    st7 = st6 \<lparr> lastSpeakerIdRef := Some detectedSpeakerId,
                                st_currentSpeakerId := Some detectedSpeakerId \<rparr>;
                    roster = map (\<lambda>s. if id' s = detectedSpeakerId
                                        then s \<lparr> isActive := True, lastActiveTime := Some now \<rparr>
                                        else s \<lparr> isActive := False \<rparr>) (speakersRef st7)
                in st7 \<lparr> speakersRef := roster, st_speakers := roster \<rparr>
              else st3
         else
           let st3 = (case lastSpeakerIdRef st2 of
                        None \<Rightarrow> st2
                      | Some lastId \<Rightarrow>
                          let elapsed = now - lastSpeakingTimeRef st2;
                              st2' = (if DEFAULT_minSpeechDuration < elapsed then
                                        let roster =
                                              map (\<lambda>s. if id' s = lastId
                                                        then s \<lparr> totalTime := totalTime s + elapsed,
                                                                 isActive := False \<rparr>
                                                        else s \<lparr> isActive := False \<rparr>)
                                                (speakersRef st2)
                                        in st2 \<lparr> speakersRef := roster, st_speakers := roster \<rparr>
                                      else st2)
                          in st2' \<lparr> lastSpeakerIdRef := None, lastSpeakingTimeRef := now \<rparr>)
           in st3 \<lparr> st_currentSpeakerId := None \<rparr>)"

text \<open>
  \<open>processAudioFrame\<close>: nothing happens unless the session is running; otherwise the
  features are extracted from the buffers of the frame and the frame is processed.
\<close>

definition processAudioFrame ::
    "int \<Rightarrow> HookState \<Rightarrow> jsnum list \<Rightarrow> nat list \<Rightarrow> real \<Rightarrow> real \<Rightarrow> int \<Rightarrow> HookState" where
  "processAudioFrame cap st timeDomainData freqBytes sampleRate fftSize now =
     (if st_status st \<noteq> running then st
      else frame_step cap st
             (extractAudioFeatures timeDomainData freqBytes sampleRate fftSize) now)"

text \<open>
  The state in which \<open>start\<close> leaves the hook before the first frame: an empty roster, a
  fresh detector, no last speaker, \<open>lastSpeakingTimeRef\<close> at the time of the start.
\<close>

definition started :: "int \<Rightarrow> int \<Rightarrow> HookState" where
  "started cap now =
     \<lparr> st_status = running, st_speakers = [], st_currentSpeakerId = None,
       st_audioFeatures = None, st_isVoiceActive = False,
       speakerDetectorRef = resetDetector cap, lastSpeakerIdRef = None,
       lastSpeakingTimeRef = now, speakersRef = [] \<rparr>"

text \<open>
  \<open>start\<close> and \<open>reset\<close> of the hook replace the detector they hold, whatever it was:
  \<open>speakerDetectorRef.current = resetDetector(maxSpeakers)\<close>.
\<close>

definition reset_detector_ref :: "int \<Rightarrow> SpeakerDetector \<Rightarrow> SpeakerDetector" where
  "reset_detector_ref k old = resetDetector k"

text \<open>
  In every detector reached from \<open>createSpeakerDetector k\<close>: \<open>speakerCount\<close> is the number
  of profiles and at most \<open>k\<close>, the keys are \<open>0, 1, ...\<close> in insertion order, and the current
  speaker, when there is one, has a profile.
\<close>

definition det_inv :: "int \<Rightarrow> SpeakerDetector \<Rightarrow> bool" where
  "det_inv k d =
     (maxSpeakers d = k \<and> speakerCount d = int (length (profiles d)) \<and> speakerCount d \<le> k
      \<and> map fst (profiles d) = map int [0..<length (profiles d)]
      \<and> (case currentSpeakerId d of None \<Rightarrow> True | Some c \<Rightarrow> 0 \<le> c \<and> c < speakerCount d))"

section \<open>Example inputs\<close>

abbreviation frame_with_pitch :: "real \<Rightarrow> AudioFeatures" where
  "frame_with_pitch p \<equiv>
     \<lparr> volume = Num 0.05, pitch = Num p, spectralCentroid = Num 800,
       zeroCrossingRate = Num 0.1, mfcc = [], frequencyData = [], waveformData = [] \<rparr>"

abbreviation silent_frame :: AudioFeatures where
  "silent_frame \<equiv>
     \<lparr> volume = Num 0.001, pitch = Num 0, spectralCentroid = Num 0,
       zeroCrossingRate = Num 0, mfcc = [], frequencyData = [], waveformData = [] \<rparr>"

abbreviation one_speaker_detector :: SpeakerDetector where
  "one_speaker_detector \<equiv>
     \<lparr> profiles = [(0, \<lparr> speakerId = 0, avgPitch = Num 120, avgSpectralCentroid = Num 800,
                           pitchVariance = Num 0, samples = 1 \<rparr>)],
       currentSpeakerId = Some 0, lastFeatures = None, speakerCount = 1, maxSpeakers = 2 \<rparr>"

section \<open>Properties of the speaker detector\<close>

subsection \<open>The profile map\<close>

lemma map_set_keys_present:
  "k \<in> fst ` set m \<Longrightarrow> map fst (map_set m k v) = map fst m"
  by (induction m) force+

lemma map_set_append:
  "k \<notin> fst ` set m \<Longrightarrow> map_set m k v = m @ [(k, v)]"
  by (induction m) auto

lemma map_of_map_set:
  "map_of (map_set m k v) = (map_of m)(k \<mapsto> v)"
  by (induction m) auto

lemma map_has_iff: "map_has m k = (k \<in> fst ` set m)"
  by (simp add: map_has_def map_of_eq_None_iff)

lemma best_match_origin:
  "best_match f ps (i, s) = (i', s') \<Longrightarrow> (i' = i \<and> s' = s) \<or> i' \<in> fst ` set ps"
proof (induction ps arbitrary: i s)
  case Nil
  then show ?case by simp
next
  case (Cons p ps)
  obtain sid profile where p: "p = (sid, profile)" by (cases p)
  show ?case
  proof (cases "s < calculateSimilarity f profile")
    case True
    with Cons.prems p have "best_match f ps (sid, calculateSimilarity f profile) = (i', s')"
      by (simp add: Let_def)
    from Cons.IH[OF this] p show ?thesis by auto
  next
    case False
    with Cons.prems p have "best_match f ps (i, s) = (i', s')"
      by (simp add: Let_def)
    from Cons.IH[OF this] show ?thesis by auto
  qed
qed

lemma detectSpeaker_rejected:
  assumes "pitch f < Num 60 \<or> Num 400 < pitch f"
  shows "detectSpeaker s f =
    \<lparr> dr_speakerId = (case currentSpeakerId s of Some c \<Rightarrow> c | None \<Rightarrow> - 1),
      dr_isNew = False, dr_confidence = Num 0 \<rparr>"
  using assms by (simp add: detectSpeaker_def)

subsection \<open>The invariant of a session\<close>

lemma det_inv_create: "0 \<le> k \<Longrightarrow> det_inv k (createSpeakerDetector k)"
  by (simp add: det_inv_def createSpeakerDetector_def)

lemma int_image_upto: "int ` {0..<n} = {i. 0 \<le> i \<and> i < int n}"
proof (intro set_eqI iffI)
  fix i assume "i \<in> int ` {0..<n}"
  then show "i \<in> {i. 0 \<le> i \<and> i < int n}" by auto
next
  fix i assume "i \<in> {i. 0 \<le> i \<and> i < int n}"
  then have "nat i \<in> {0..<n}" and "i = int (nat i)" by auto
  then show "i \<in> int ` {0..<n}" by (rule rev_image_eqI)
qed

lemma keys_upto:
  assumes "map fst m = map int [0..<length m]"
  shows "fst ` set m = {i. 0 \<le> i \<and> i < int (length m)}"
proof -
  have "fst ` set m = set (map fst m)" by simp
  also have "\<dots> = int ` {0..<length m}" using assms by simp
  finally show ?thesis by (simp only: int_image_upto)
qed

lemma detectSpeaker_cases:
  assumes inv: "det_inv k d" and k: "1 \<le> k"
  shows "(dr_isNew (detectSpeaker d f) \<and> dr_speakerId (detectSpeaker d f) = speakerCount d
            \<and> speakerCount d < k)
       \<or> (\<not> dr_isNew (detectSpeaker d f) \<and> dr_speakerId (detectSpeaker d f) = - 1
            \<and> currentSpeakerId d = None)
       \<or> (\<not> dr_isNew (detectSpeaker d f) \<and> 0 \<le> dr_speakerId (detectSpeaker d f)
            \<and> dr_speakerId (detectSpeaker d f) < speakerCount d)"
proof (cases "pitch f < Num 60 \<or> Num 400 < pitch f")
  case True
  with inv show ?thesis
    by (cases "currentSpeakerId d") (auto simp: detectSpeaker_def det_inv_def)
next
  case False
  obtain bi bs where bm: "best_match f (profiles d) (- 1, Num 0) = (bi, bs)"
    by (cases "best_match f (profiles d) (- 1, Num 0)")
  from inv have keys: "fst ` set (profiles d) = {i. 0 \<le> i \<and> i < speakerCount d}"
    using keys_upto[of "profiles d"] by (simp add: det_inv_def)
  from best_match_origin[OF bm] keys
  have orig: "(bi = - 1 \<and> bs = Num 0) \<or> (0 \<le> bi \<and> bi < speakerCount d)" by auto
  from inv have mx: "maxSpeakers d = k" by (simp add: det_inv_def)
  show ?thesis
  proof (cases "bs < SPEAKER_CHANGE_THRESHOLD")
    case lt: True
    show ?thesis
    proof (cases "speakerCount d < maxSpeakers d")
      case True
      with False lt bm mx show ?thesis by (simp add: detectSpeaker_def)
    next
      case full: False
      with mx k have "0 < speakerCount d" by simp
      with False lt bm full orig show ?thesis by (auto simp: detectSpeaker_def)
    qed
  next
    case ge: False
    then have "\<not> (bi = - 1 \<and> bs = Num 0)" by (auto simp: SPEAKER_CHANGE_THRESHOLD_def)
    with orig have "0 \<le> bi \<and> bi < speakerCount d" by simp
    with False ge bm show ?thesis by (simp add: detectSpeaker_def)
  qed
qed

lemma det_inv_step:
  assumes inv: "det_inv k d" and k: "1 \<le> k"
  shows "det_inv k (detector (processSpeakerDetection d f))"
proof -
  let ?r = "detectSpeaker d f"
  from inv have keys: "fst ` set (profiles d) = {i. 0 \<le> i \<and> i < speakerCount d}"
    using keys_upto[of "profiles d"] by (simp add: det_inv_def)
  from detectSpeaker_cases[OF inv k, of f]
  consider (new) "dr_isNew ?r" "dr_speakerId ?r = speakerCount d" "speakerCount d < k"
    | (none) "\<not> dr_isNew ?r" "dr_speakerId ?r = - 1" "currentSpeakerId d = None"
    | (old) "\<not> dr_isNew ?r" "0 \<le> dr_speakerId ?r" "dr_speakerId ?r < speakerCount d"
    by auto
  then show ?thesis
  proof cases
    case new
    from keys have "speakerCount d \<notin> fst ` set (profiles d)" by simp
    then have app: "map_set (profiles d) (speakerCount d) v = profiles d @ [(speakerCount d, v)]" for v
      by (rule map_set_append)
    from inv new app show ?thesis
      by (simp add: det_inv_def processSpeakerDetection_def Let_def)
  next
    case none
    with inv show ?thesis
      by (simp add: det_inv_def processSpeakerDetection_def Let_def)
  next
    case old
    with keys have mem: "dr_speakerId ?r \<in> fst ` set (profiles d)" by simp
    then obtain p where p: "map_of (profiles d) (dr_speakerId ?r) = Some p"
      by (metis map_has_def map_has_iff not_Some_eq)
    have len: "length (map_set (profiles d) (dr_speakerId ?r) v) = length (profiles d)" for v
      using map_set_keys_present[OF mem, of v] by (metis length_map)
    from inv old mem p len map_set_keys_present[OF mem] show ?thesis
      by (simp add: det_inv_def processSpeakerDetection_def Let_def map_has_iff map_get_def)
  qed
qed
lemma step_result_in_range:
  assumes inv: "det_inv k d" and k: "1 \<le> k"
  shows "pr_speakerId (processSpeakerDetection d f) = - 1
       \<or> (0 \<le> pr_speakerId (processSpeakerDetection d f)
            \<and> pr_speakerId (processSpeakerDetection d f) < k)"
proof -
  have sid: "pr_speakerId (processSpeakerDetection d f) = dr_speakerId (detectSpeaker d f)"
    by (simp add: processSpeakerDetection_def Let_def)
  from inv have "speakerCount d \<le> k" "0 \<le> speakerCount d" by (simp_all add: det_inv_def)
  with detectSpeaker_cases[OF inv k, of f] sid show ?thesis by auto
qed

lemma step_new_id:
  assumes inv: "det_inv k d" and k: "1 \<le> k"
    and new: "isNewSpeaker (processSpeakerDetection d f)"
  shows "pr_speakerId (processSpeakerDetection d f) = int (length (profiles d))
       \<and> pr_speakerId (processSpeakerDetection d f) = speakerCount d
       \<and> profiles (detector (processSpeakerDetection d f))
           = profiles d @ [(speakerCount d, createProfile (speakerCount d) f)]"
proof -
  from new have isnew: "dr_isNew (detectSpeaker d f)"
    by (simp add: processSpeakerDetection_def Let_def)
  with detectSpeaker_cases[OF inv k, of f]
  have sid: "dr_speakerId (detectSpeaker d f) = speakerCount d" by auto
  from inv have cnt: "speakerCount d = int (length (profiles d))" by (simp add: det_inv_def)
  from inv have "fst ` set (profiles d) = {i. 0 \<le> i \<and> i < speakerCount d}"
    using keys_upto[of "profiles d"] by (simp add: det_inv_def)
  then have "speakerCount d \<notin> fst ` set (profiles d)" by simp
  then have "map_set (profiles d) (speakerCount d) v = profiles d @ [(speakerCount d, v)]" for v
    by (rule map_set_append)
  with isnew sid cnt show ?thesis
    by (simp add: processSpeakerDetection_def Let_def)
qed

lemma process_all_fst_Cons:
  "fst (process_all d (f # fs)) = fst (process_all (detector (processSpeakerDetection d f)) fs)"
  by (simp add: Let_def split: prod.splits)

lemma process_all_snd_Cons:
  "snd (process_all d (f # fs))
     = processSpeakerDetection d f # snd (process_all (detector (processSpeakerDetection d f)) fs)"
  by (simp add: Let_def split: prod.splits)

lemma process_all_inv:
  assumes k: "1 \<le> k"
  shows "det_inv k d \<Longrightarrow>
    det_inv k (fst (process_all d fs))
    \<and> (\<forall>r \<in> set (snd (process_all d fs)). pr_speakerId r = - 1 \<or> (0 \<le> pr_speakerId r \<and> pr_speakerId r < k))"
proof (induction fs arbitrary: d)
  case Nil
  then show ?case by simp
next
  case (Cons f fs)
  from det_inv_step[OF Cons.prems k, of f]
  have inv': "det_inv k (detector (processSpeakerDetection d f))" .
  from Cons.IH[OF inv'] step_result_in_range[OF Cons.prems k, of f]
  show ?case by (simp only: process_all_fst_Cons process_all_snd_Cons) simp
qed


subsection \<open>Frames without a usable pitch\<close>

text \<open>
  Claim C1, as amended. A frame whose pitch is below 60 Hz or above 400 Hz (the two bounds
  themselves are accepted by \<open>detectSpeaker\<close>) is answered with the current speaker, or
  \<open>-1\<close> when there is none, with \<open>isNewSpeaker = false\<close> and \<open>confidence = 0\<close>; the
  detector keeps its \<open>speakerCount\<close>, \<open>maxSpeakers\<close> and \<open>currentSpeakerId\<close>, no profile is
  created, removed or reordered, and every profile other than the current speaker's is
  unchanged; with no current speaker the whole profile map is unchanged.
\<close>

theorem rejected_frame:
  assumes "pitch f < Num 60 \<or> Num 400 < pitch f"
  shows "pr_speakerId (processSpeakerDetection s f)
           = (case currentSpeakerId s of Some c \<Rightarrow> c | None \<Rightarrow> - 1)
       \<and> isNewSpeaker (processSpeakerDetection s f) = False
       \<and> confidence (processSpeakerDetection s f) = Num 0
       \<and> speakerCount (detector (processSpeakerDetection s f)) = speakerCount s
       \<and> maxSpeakers (detector (processSpeakerDetection s f)) = maxSpeakers s
       \<and> currentSpeakerId (detector (processSpeakerDetection s f)) = currentSpeakerId s
       \<and> map fst (profiles (detector (processSpeakerDetection s f))) = map fst (profiles s)
       \<and> (\<forall>k. currentSpeakerId s \<noteq> Some k \<longrightarrow>
             map_get (profiles (detector (processSpeakerDetection s f))) k
               = map_get (profiles s) k)
       \<and> (currentSpeakerId s = None \<longrightarrow>
             profiles (detector (processSpeakerDetection s f)) = profiles s)"
  using detectSpeaker_rejected[OF assms, of s]
  by (auto simp: processSpeakerDetection_def Let_def map_has_iff map_get_def map_of_map_set
        map_set_keys_present split: option.splits)

theorem rejected_frame_witness:
  "Num 0 < Num 60
   \<and> pr_speakerId (processSpeakerDetection one_speaker_detector (frame_with_pitch 0)) = 0
   \<and> isNewSpeaker (processSpeakerDetection one_speaker_detector (frame_with_pitch 0)) = False
   \<and> confidence (processSpeakerDetection one_speaker_detector (frame_with_pitch 0)) = Num 0
   \<and> speakerCount (detector (processSpeakerDetection one_speaker_detector (frame_with_pitch 0))) = 1
   \<and> map fst (profiles (detector (processSpeakerDetection one_speaker_detector (frame_with_pitch 0))))
        = [0]"
  using rejected_frame [of "frame_with_pitch 0" one_speaker_detector] by simp

text \<open>
  The claim as it was stated fails twice. At a pitch of exactly 60 Hz, which is outside the
  open interval, an empty detector creates speaker 0. At a pitch of 0 Hz, a detector whose
  current speaker 0 has a profile folds the frame into that profile: its average pitch
  moves from 120 to 108 and its sample count from 1 to 2.
\<close>

theorem rejected_frame_counterexample:
  "isNewSpeaker (processSpeakerDetection (createSpeakerDetector 2) (frame_with_pitch 60))
   \<and> pr_speakerId (processSpeakerDetection (createSpeakerDetector 2) (frame_with_pitch 60)) = 0
   \<and> speakerCount (detector (processSpeakerDetection (createSpeakerDetector 2) (frame_with_pitch 60))) = 1
   \<and> profiles (detector (processSpeakerDetection (createSpeakerDetector 2) (frame_with_pitch 60)))
        = [(0, createProfile 0 (frame_with_pitch 60))]
   \<and> profiles (detector (processSpeakerDetection one_speaker_detector (frame_with_pitch 0)))
        = [(0, \<lparr> speakerId = 0, avgPitch = Num 108, avgSpectralCentroid = Num 800,
                  pitchVariance = Num 1166.4, samples = 2 \<rparr>)]"
  by (simp add: processSpeakerDetection_def detectSpeaker_def createSpeakerDetector_def
      SPEAKER_CHANGE_THRESHOLD_def map_has_def map_get_def updateProfile_def js_square_def
      minus_jsnum_def Let_def)

subsection \<open>The speaker cap\<close>

text \<open>
  Claim C2. For \<open>maxSpeakers = k \<ge> 1\<close> and every list of feature vectors processed from
  \<open>createSpeakerDetector k\<close>: the detector reached has at most \<open>k\<close> profiles and
  \<open>speakerCount \<le> k\<close>; its profile keys are \<open>0, 1, ...\<close> in creation order; every speaker
  id returned along the way is \<open>-1\<close> or lies in \<open>0 .. k - 1\<close>; and whenever the next frame
  creates a speaker, the new id is the number of profiles at that moment and its profile is
  appended to the map.
\<close>

theorem clusterer_cap:
  assumes k: "1 \<le> k"
  shows "int (length (profiles (fst (process_all (createSpeakerDetector k) fs)))) \<le> k
       \<and> speakerCount (fst (process_all (createSpeakerDetector k) fs)) \<le> k
       \<and> map fst (profiles (fst (process_all (createSpeakerDetector k) fs)))
           = map int [0..<length (profiles (fst (process_all (createSpeakerDetector k) fs)))]
       \<and> (\<forall>r \<in> set (snd (process_all (createSpeakerDetector k) fs)).
             pr_speakerId r = - 1 \<or> (0 \<le> pr_speakerId r \<and> pr_speakerId r < k))
       \<and> (\<forall>f. isNewSpeaker (processSpeakerDetection (fst (process_all (createSpeakerDetector k) fs)) f) \<longrightarrow>
             pr_speakerId (processSpeakerDetection (fst (process_all (createSpeakerDetector k) fs)) f)
               = int (length (profiles (fst (process_all (createSpeakerDetector k) fs))))
             \<and> profiles (detector (processSpeakerDetection (fst (process_all (createSpeakerDetector k) fs)) f))
               = profiles (fst (process_all (createSpeakerDetector k) fs))
                 @ [(int (length (profiles (fst (process_all (createSpeakerDetector k) fs)))),
                     createProfile (int (length (profiles (fst (process_all (createSpeakerDetector k) fs))))) f)])"
proof -
  let ?d = "fst (process_all (createSpeakerDetector k) fs)"
  from k have "det_inv k (createSpeakerDetector k)" by (simp add: det_inv_create)
  from process_all_inv[OF k this, of fs]
  have inv: "det_inv k ?d"
    and ids: "\<forall>r \<in> set (snd (process_all (createSpeakerDetector k) fs)).
             pr_speakerId r = - 1 \<or> (0 \<le> pr_speakerId r \<and> pr_speakerId r < k)"
    by simp_all
  from inv have a: "int (length (profiles ?d)) \<le> k" "speakerCount ?d \<le> k"
    "map fst (profiles ?d) = map int [0..<length (profiles ?d)]"
    "speakerCount ?d = int (length (profiles ?d))"
    by (simp_all add: det_inv_def)
  from step_new_id[OF inv k] a(4)
  have new: "\<forall>f. isNewSpeaker (processSpeakerDetection ?d f) \<longrightarrow>
             pr_speakerId (processSpeakerDetection ?d f) = int (length (profiles ?d))
             \<and> profiles (detector (processSpeakerDetection ?d f))
               = profiles ?d @ [(int (length (profiles ?d)), createProfile (int (length (profiles ?d))) f)]"
    by simp
  from a(1,2,3) ids new show ?thesis by blast
qed

theorem clusterer_cap_witness:
  "(1::int) \<le> 2
   \<and> int (length (profiles (fst (process_all (createSpeakerDetector 2) [frame_with_pitch 120])))) \<le> 2
   \<and> speakerCount (fst (process_all (createSpeakerDetector 2) [frame_with_pitch 120])) \<le> 2
   \<and> map fst (profiles (fst (process_all (createSpeakerDetector 2) [frame_with_pitch 120])))
        = map int [0..<length (profiles (fst (process_all (createSpeakerDetector 2) [frame_with_pitch 120])))]"
  using clusterer_cap [of 2 "[frame_with_pitch 120]"] by simp

subsection \<open>The current speaker is never cleared by a frame\<close>

text \<open>
  Claim C10. If the detector has a current speaker, then after \<open>processSpeakerDetection\<close>
  on any feature vector it still has one, and so after any list of frames; a frame whose
  pitch is below 60 Hz or above 400 Hz is attributed to that same speaker, which stays
  current. Only \<open>createSpeakerDetector\<close> (and \<open>resetDetector\<close>, which calls it) sets
  \<open>currentSpeakerId\<close> to null.
\<close>

theorem current_speaker_sticky:
  assumes "currentSpeakerId s = Some c"
  shows "currentSpeakerId (detector (processSpeakerDetection s f)) \<noteq> None
       \<and> (pitch f < Num 60 \<or> Num 400 < pitch f \<longrightarrow>
            pr_speakerId (processSpeakerDetection s f) = c
            \<and> currentSpeakerId (detector (processSpeakerDetection s f)) = Some c)
       \<and> currentSpeakerId (fst (process_all s fs)) \<noteq> None"
proof -
  have step: "currentSpeakerId (detector (processSpeakerDetection d g)) \<noteq> None"
    if "currentSpeakerId d \<noteq> None" for d g
    using that by (simp add: processSpeakerDetection_def Let_def)
  have run: "currentSpeakerId d \<noteq> None \<Longrightarrow> currentSpeakerId (fst (process_all d gs)) \<noteq> None"
    for d gs
  proof (induction gs arbitrary: d)
    case Nil
    then show ?case by simp
  next
    case (Cons g gs)
    from Cons.IH[OF step[OF Cons.prems, of g]] show ?case
      by (simp add: process_all_fst_Cons del: process_all.simps)
  qed
  have rej: "pr_speakerId (processSpeakerDetection s f) = c
             \<and> currentSpeakerId (detector (processSpeakerDetection s f)) = Some c"
    if "pitch f < Num 60 \<or> Num 400 < pitch f"
    using detectSpeaker_rejected[OF that, of s] assms
    by (simp add: processSpeakerDetection_def Let_def)
  from assms have "currentSpeakerId s \<noteq> None" by simp
  with step[of s f] run[of s fs] rej show ?thesis
    by blast
qed

theorem current_speaker_sticky_witness:
  "currentSpeakerId one_speaker_detector = Some 0
   \<and> currentSpeakerId (detector (processSpeakerDetection one_speaker_detector (frame_with_pitch 0)))
        \<noteq> None
   \<and> currentSpeakerId (fst (process_all one_speaker_detector [frame_with_pitch 0, frame_with_pitch 500]))
        \<noteq> None"
  using current_speaker_sticky [of one_speaker_detector 0 "frame_with_pitch 0"
      "[frame_with_pitch 0, frame_with_pitch 500]"]
  by simp

subsection \<open>Reset\<close>

text \<open>
  Claim C9. Resetting the detector twice in a row, from any detector, gives the same
  detector as resetting it once, and that detector is the initial empty one of
  \<open>createSpeakerDetector k\<close>: no profiles, \<open>speakerCount = 0\<close>, no current speaker.
\<close>

theorem reset_idempotent:
  "reset_detector_ref k (reset_detector_ref k s) = reset_detector_ref k s
   \<and> reset_detector_ref k s = createSpeakerDetector k
   \<and> resetDetector k = createSpeakerDetector k
   \<and> profiles (reset_detector_ref k s) = []
   \<and> speakerCount (reset_detector_ref k s) = 0
   \<and> currentSpeakerId (reset_detector_ref k s) = None
   \<and> lastFeatures (reset_detector_ref k s) = None
   \<and> maxSpeakers (reset_detector_ref k s) = k"
  by (simp add: reset_detector_ref_def resetDetector_def createSpeakerDetector_def)

theorem reset_idempotent_witness:
  "reset_detector_ref 2 (reset_detector_ref 2 one_speaker_detector)
     = reset_detector_ref 2 one_speaker_detector
   \<and> profiles (reset_detector_ref 2 one_speaker_detector) = []
   \<and> currentSpeakerId (reset_detector_ref 2 one_speaker_detector) = None"
  using reset_idempotent [of 2 one_speaker_detector] by blast

section \<open>Properties of feature extraction and voice activity\<close>

subsection \<open>Voice activity\<close>

text \<open>
  Claim C3. For every feature vector and every \<open>silenceThreshold\<close>, \<open>detectVoiceActivity\<close>
  answers voiced exactly when \<open>volume > 0.02\<close>, or \<open>volume > silenceThreshold\<close> and (the
  pitch is strictly between 50 and 600 Hz or the spectral centroid is above 100 Hz); in
  particular a volume above 0.02 is voiced whatever the pitch, the zero-crossing rate and
  the spectral centroid are. The comparisons are those of the program: each is false on
  NaN.
\<close>

theorem vad_policy:
  "detectVoiceActivity f t
     = (Num 0.02 < volume f
        \<or> (t < volume f
            \<and> ((Num 50 < pitch f \<and> pitch f < Num 600) \<or> Num 100 < spectralCentroid f)))
   \<and> (Num 0.02 < volume f \<longrightarrow> detectVoiceActivity f t)"
  by (simp add: detectVoiceActivity_def Let_def)

theorem vad_policy_witness:
  "Num 0.02 < Num 0.05
   \<and> detectVoiceActivity
        \<lparr> volume = Num 0.05, pitch = NaN, spectralCentroid = Num 0, zeroCrossingRate = NaN,
          mfcc = [], frequencyData = [], waveformData = [] \<rparr> (Num 0.008)"
  using vad_policy [of "\<lparr> volume = Num 0.05, pitch = NaN, spectralCentroid = Num 0,
      zeroCrossingRate = NaN, mfcc = [], frequencyData = [], waveformData = [] \<rparr>" "Num 0.008"]
  by simp

subsection \<open>Spectral centroid\<close>

lemma centroid_loop_sums:
  "centroid_loop ms bf i (ws, s)
     = (ws + sum_list (map (\<lambda>j. ms ! j * (Num (real (i + j)) * bf)) [0..<length ms]),
        s + sum_list ms)"
proof (induction ms arbitrary: i ws s)
  case Nil
  then show ?case by simp
next
  case (Cons m ms)
  have "map (\<lambda>j. (m # ms) ! j * (Num (real (i + j)) * bf)) [0..<length (m # ms)]
      = m * (Num (real i) * bf) # map (\<lambda>j. ms ! j * (Num (real (Suc i + j)) * bf)) [0..<length ms]"
    by (simp add: map_upt_Suc add.commute add.left_commute del: upt_Suc)
  then show ?case
    by (simp add: Cons.IH Let_def add.assoc del: upt_Suc)
qed

lemma div_zero_not_finite: "(x :: jsnum) / Num 0 \<noteq> Num r"
  by (cases x) (simp_all add: inf_of_def)

lemma Num_0_plus: "Num 0 + (x :: jsnum) = x"
  by (cases x) simp_all

lemma centroid_eq:
  "calculateSpectralCentroid fd sr fft
     = (if Num 0 < sum_list fd
        then sum_list (map (\<lambda>i. fd ! i * (Num (real i) * (Num sr / Num fft))) [0..<length fd])
               / sum_list fd
        else Num 0)"
  by (simp add: calculateSpectralCentroid_def centroid_loop_sums Let_def Num_0_plus)

lemma sum_list_zeros: "\<forall>m \<in> set fd. m = Num 0 \<Longrightarrow> sum_list fd = Num 0"
  by (induction fd) (simp_all add: zero_jsnum_def)

text \<open>
  Claim C8. When the magnitudes of a spectrum sum to 0, as they do for the all-zero
  spectrum, \<open>calculateSpectralCentroid\<close> returns 0, which is not the value of a division by
  that sum (a division by zero gives NaN or an infinity): the division is not executed.
  More generally it returns 0 whenever the sum is not positive. When the sum is positive
  it returns the magnitude-weighted average frequency, the sum of \<open>mag_i * freq_i\<close> over
  the sum of \<open>mag_i\<close>, with \<open>freq_i = i * (sampleRate / fftSize)\<close>, which for a nonzero
  \<open>fftSize\<close> is the number \<open>i * sampleRate / fftSize\<close>.
\<close>

theorem centroid_defined:
  "(sum_list fd = Num 0 \<longrightarrow>
      calculateSpectralCentroid fd sr fft = Num 0
      \<and> calculateSpectralCentroid fd sr fft
          \<noteq> sum_list (map (\<lambda>i. fd ! i * (Num (real i) * (Num sr / Num fft))) [0..<length fd])
              / sum_list fd)
   \<and> ((\<forall>m \<in> set fd. m = Num 0) \<longrightarrow> calculateSpectralCentroid fd sr fft = Num 0)
   \<and> (Num 0 < sum_list fd \<longrightarrow>
      calculateSpectralCentroid fd sr fft
        = sum_list (map (\<lambda>i. fd ! i * (Num (real i) * (Num sr / Num fft))) [0..<length fd])
            / sum_list fd)
   \<and> (Num 0 < sum_list fd \<and> fft \<noteq> 0 \<longrightarrow>
      calculateSpectralCentroid fd sr fft
        = sum_list (map (\<lambda>i. fd ! i * Num (real i * sr / fft)) [0..<length fd]) / sum_list fd)
   \<and> (\<not> Num 0 < sum_list fd \<longrightarrow> calculateSpectralCentroid fd sr fft = Num 0)"
proof (intro conjI impI)
  assume z: "sum_list fd = Num 0"
  then show "calculateSpectralCentroid fd sr fft = Num 0"
    by (simp add: centroid_eq)
  with z div_zero_not_finite
  show "calculateSpectralCentroid fd sr fft
          \<noteq> sum_list (map (\<lambda>i. fd ! i * (Num (real i) * (Num sr / Num fft))) [0..<length fd])
              / sum_list fd"
    by metis
next
  assume "\<forall>m \<in> set fd. m = Num 0"
  then have "sum_list fd = Num 0" by (rule sum_list_zeros)
  then show "calculateSpectralCentroid fd sr fft = Num 0"
    by (simp add: centroid_eq)
next
  assume "Num 0 < sum_list fd"
  then show "calculateSpectralCentroid fd sr fft
        = sum_list (map (\<lambda>i. fd ! i * (Num (real i) * (Num sr / Num fft))) [0..<length fd])
            / sum_list fd"
    by (simp add: centroid_eq)
next
  assume a: "Num 0 < sum_list fd \<and> fft \<noteq> 0"
  then have "Num (real i) * (Num sr / Num fft) = Num (real i * sr / fft)" for i
    by simp
  with a show "calculateSpectralCentroid fd sr fft
        = sum_list (map (\<lambda>i. fd ! i * Num (real i * sr / fft)) [0..<length fd]) / sum_list fd"
    by (simp add: centroid_eq)
next
  assume "\<not> Num 0 < sum_list fd"
  then show "calculateSpectralCentroid fd sr fft = Num 0"
    by (simp add: centroid_eq)
qed

theorem centroid_defined_witness:
  "sum_list [Num 0, Num 0, Num 0] = Num 0
   \<and> calculateSpectralCentroid [Num 0, Num 0, Num 0] 44100 2048 = Num 0
   \<and> Num 0 < sum_list [Num 1, Num 3]
   \<and> calculateSpectralCentroid [Num 1, Num 3] 8 4 = Num 1.5"
  using centroid_defined [of "[Num 0, Num 0, Num 0]" 44100 2048]
    centroid_defined [of "[Num 1, Num 3]" 8 4]
  by (simp add: zero_jsnum_def)

subsection \<open>Pitch\<close>

lemma js_le_less_trans: "(a :: jsnum) \<le> b \<Longrightarrow> b < c \<Longrightarrow> a < c"
  by (cases a; cases b; cases c) simp_all

lemma js_less_imp_le: "(a :: jsnum) < b \<Longrightarrow> a \<le> b"
  by (cases a; cases b) simp_all

lemma pitch_loop_result:
  "pitch_loop xs maxP p (bc, bp) = (bc', bp') \<Longrightarrow> Num 0 \<le> bc \<Longrightarrow>
     Num 0 \<le> bc'
     \<and> (bp' = bp
        \<or> (p \<le> bp' \<and> bp' < maxP \<and> bp' < int (length xs) \<and> Num 0 < correlation_at xs bp'))"
proof (induction xs maxP p "(bc, bp)" arbitrary: bc bp rule: pitch_loop.induct)
  case (1 xs maxP p bc bp)
  show ?case
  proof (cases "p < maxP \<and> p < int (length xs)")
    case False
    with "1.prems" show ?thesis by simp
  next
    case run: True
    show ?thesis
    proof (cases "bc < correlation_at xs p")
      case True
      with run "1.prems"(1)
      have eq: "pitch_loop xs maxP (p + 1) (correlation_at xs p, p) = (bc', bp')"
        by (simp add: Let_def)
      from "1.prems"(2) True have pos: "Num 0 < correlation_at xs p"
        by (rule js_le_less_trans)
      from "1.hyps"(1)[OF run refl True eq js_less_imp_le[OF pos]] run pos
      show ?thesis by auto
    next
      case False
      with run "1.prems"(1)
      have eq: "pitch_loop xs maxP (p + 1) (bc, bp) = (bc', bp')"
        by (simp add: Let_def)
      from "1.hyps"(2)[OF run refl False eq "1.prems"(2)]
      show ?thesis by auto
    qed
  qed
qed

text \<open>
  Claim C7. For every buffer and sample rate, \<open>estimatePitch\<close> returns 0 or a value in
  \<open>[sampleRate / maxPeriod, sampleRate / minPeriod]\<close> with
  \<open>minPeriod = floor(sampleRate / 500)\<close> and \<open>maxPeriod = floor(sampleRate / 50)\<close> (the
  upper bound is \<open>+\<infinity>\<close> when \<open>minPeriod = 0\<close>); and a nonzero pitch is \<open>sampleRate / p\<close> for a
  candidate lag \<open>p\<close> whose autocorrelation is positive.
\<close>

theorem pitch_bounds:
  "(estimatePitch xs sr = Num 0
    \<or> (Num sr / Num (real_of_int (maxPeriod sr)) \<le> estimatePitch xs sr
       \<and> estimatePitch xs sr \<le> Num sr / Num (real_of_int (minPeriod sr))))
   \<and> (estimatePitch xs sr \<noteq> Num 0 \<longrightarrow>
        (\<exists>p. minPeriod sr \<le> p \<and> p < maxPeriod sr \<and> p < int (length xs)
             \<and> Num 0 < correlation_at xs p
             \<and> estimatePitch xs sr = Num (sr / real_of_int p)))"
proof -
  obtain bc bp where loop: "pitch_loop xs (maxPeriod sr) (minPeriod sr) (Num 0, 0) = (bc, bp)"
    by (cases "pitch_loop xs (maxPeriod sr) (minPeriod sr) (Num 0, 0)")
  have est: "estimatePitch xs sr = (if 0 < bp then Num sr / Num (real_of_int bp) else Num 0)"
    using loop by (simp add: estimatePitch_def)
  show ?thesis
  proof (cases "0 < bp")
    case False
    with est show ?thesis by simp
  next
    case True
    from pitch_loop_result[OF loop] True
    have rng: "minPeriod sr \<le> bp" "bp < maxPeriod sr" "bp < int (length xs)"
      and corr: "Num 0 < correlation_at xs bp"
      by auto
    from True est have val: "estimatePitch xs sr = Num (sr / real_of_int bp)" by simp
    from True rng(2) have "2 \<le> maxPeriod sr" by simp
    then have "2 \<le> sr / 50" unfolding maxPeriod_def by linarith
    then have srpos: "0 < sr" by simp
    from True rng(2) have mp: "0 < real_of_int (maxPeriod sr)" by simp
    have lower: "sr / real_of_int (maxPeriod sr) \<le> sr / real_of_int bp"
      using True rng(2) srpos by (simp add: frac_le)
    have l: "Num sr / Num (real_of_int (maxPeriod sr)) \<le> estimatePitch xs sr"
      using lower mp val by simp
    have u: "estimatePitch xs sr \<le> Num sr / Num (real_of_int (minPeriod sr))"
    proof (cases "minPeriod sr = 0")
      case True
      with srpos val show ?thesis by (simp add: inf_of_def)
    next
      case False
      have "0 \<le> sr / 500" using srpos by simp
      then have "0 \<le> minPeriod sr" unfolding minPeriod_def by simp
      with False have mpos: "0 < minPeriod sr" by simp
      with rng(1) srpos have "sr / real_of_int bp \<le> sr / real_of_int (minPeriod sr)"
        by (simp add: frac_le)
      with mpos val show ?thesis by simp
    qed
    from l u val rng corr show ?thesis by blast
  qed
qed

theorem pitch_bounds_witness:
  "estimatePitch [Num 1, Num 1] 500 = Num 500
   \<and> Num 500 / Num (real_of_int (maxPeriod 500)) = Num 50
   \<and> Num 500 / Num (real_of_int (minPeriod 500)) = Num 500
   \<and> Num 50 \<le> estimatePitch [Num 1, Num 1] 500
   \<and> estimatePitch [Num 1, Num 1] 500 \<le> Num 500
   \<and> Num 0 < correlation_at [Num 1, Num 1] 1"
  using pitch_bounds [of "[Num 1, Num 1]" 500]
  by (simp add: estimatePitch_def minPeriod_def maxPeriod_def correlation_at_def js_at_def
      upto.simps Let_def)


subsection \<open>Mel-band energies\<close>







































section \<open>Properties of the frame loop\<close>

subsection \<open>Frames with an empty buffer\<close>

lemma js_not_less_NaN [simp]: "\<not> (x :: jsnum) < NaN"
  by (cases x) simp_all

lemma rms_empty: "calculateRMS [] = NaN"
  by (simp add: calculateRMS_def)

lemma zcr_empty: "calculateZeroCrossingRate [] = NaN"
  by (simp add: calculateZeroCrossingRate_def)

lemma pitch_empty: "estimatePitch [] sr = Num 0"
proof -
  obtain bc bp where loop: "pitch_loop [] (maxPeriod sr) (minPeriod sr) (Num 0, 0) = (bc, bp)"
    by (cases "pitch_loop [] (maxPeriod sr) (minPeriod sr) (Num 0, 0)")
  from pitch_loop_result[OF loop] have "\<not> 0 < bp" by auto
  with loop show ?thesis by (simp add: estimatePitch_def)
qed

lemma vad_nan: "volume f = NaN \<Longrightarrow> \<not> detectVoiceActivity f t"
  by (simp add: detectVoiceActivity_def Let_def)

lemma frame_step_silent_detector:
  "\<not> detectVoiceActivity f DEFAULT_silenceThreshold \<Longrightarrow>
     speakerDetectorRef (frame_step cap st f now) = speakerDetectorRef st"
  by (simp add: frame_step_def Let_def split: option.splits)

text \<open>
  Claim C6, as amended. No error is raised for a frame with an empty buffer. With an empty
  time-domain buffer the extracted volume and zero-crossing rate are NaN (\<open>0 / 0\<close>) and the
  pitch is 0; the frame is classified as silent whatever the threshold, and the detector,
  with its voice profiles, is the same after the frame (the roster is handled as for any
  silent frame). With an empty frequency buffer the spectral centroid is 0.
\<close>

theorem empty_buffer_frame:
  "volume (extractAudioFeatures [] fb sr fft) = NaN
   \<and> zeroCrossingRate (extractAudioFeatures [] fb sr fft) = NaN
   \<and> pitch (extractAudioFeatures [] fb sr fft) = Num 0
   \<and> \<not> detectVoiceActivity (extractAudioFeatures [] fb sr fft) t
   \<and> speakerDetectorRef (processAudioFrame cap st [] fb sr fft now) = speakerDetectorRef st
   \<and> spectralCentroid (extractAudioFeatures td [] sr fft) = Num 0"
proof -
  have v: "volume (extractAudioFeatures [] fb sr fft) = NaN"
    by (simp add: extractAudioFeatures_def rms_empty)
  have z: "zeroCrossingRate (extractAudioFeatures [] fb sr fft) = NaN"
    by (simp add: extractAudioFeatures_def zcr_empty)
  have p: "pitch (extractAudioFeatures [] fb sr fft) = Num 0"
    by (simp add: extractAudioFeatures_def pitch_empty)
  have d: "\<not> detectVoiceActivity (extractAudioFeatures [] fb sr fft) u" for u
    using v by (rule vad_nan)
  have s: "speakerDetectorRef (processAudioFrame cap st [] fb sr fft now) = speakerDetectorRef st"
    using frame_step_silent_detector[OF d] by (simp add: processAudioFrame_def)
  have c: "spectralCentroid (extractAudioFeatures td [] sr fft) = Num 0"
    by (simp add: extractAudioFeatures_def calculateSpectralCentroid_def)
  from v z p d s c show ?thesis by blast
qed

theorem empty_buffer_frame_witness:
  "volume (extractAudioFeatures [] [] 44100 2048) = NaN
   \<and> \<not> detectVoiceActivity (extractAudioFeatures [] [] 44100 2048) DEFAULT_silenceThreshold
   \<and> speakerDetectorRef (processAudioFrame 2 (started 2 1000) [] [] 44100 2048 1016)
        = speakerDetectorRef (started 2 1000)"
  using empty_buffer_frame [of "[]" 44100 2048 DEFAULT_silenceThreshold 2 "started 2 1000" 1016 "[]"]
  by blast

text \<open>
  The claim as it was stated fails on a frame with two empty buffers: the extraction
  returns a volume of NaN instead of failing, and the frame changes the roster. After one
  voiced frame at time 1000 the roster holds speaker 0, active, with no speaking time; the
  empty frame at time 2000 adds 1000 ms to speaker 0 and marks it inactive.
\<close>

theorem empty_buffer_frame_counterexample:
  "volume (extractAudioFeatures [] [] 44100 2048) = NaN
   \<and> map isActive (speakersRef (frame_step 2 (started 2 1000) (frame_with_pitch 120) 1000)) = [True]
   \<and> map totalTime (speakersRef (frame_step 2 (started 2 1000) (frame_with_pitch 120) 1000)) = [0]
   \<and> map isActive (speakersRef (processAudioFrame 2
          (frame_step 2 (started 2 1000) (frame_with_pitch 120) 1000) [] [] 44100 2048 2000))
        = [False]
   \<and> map totalTime (speakersRef (processAudioFrame 2
          (frame_step 2 (started 2 1000) (frame_with_pitch 120) 1000) [] [] 44100 2048 2000))
        = [1000]"
  by (simp add: processAudioFrame_def extractAudioFeatures_def rms_empty frame_step_def
      started_def detectVoiceActivity_def DEFAULT_silenceThreshold_def processSpeakerDetection_def
      detectSpeaker_def resetDetector_def createSpeakerDetector_def SPEAKER_CHANGE_THRESHOLD_def
      addSpeaker_def SPEAKER_COLORS_def createProfile_def DEFAULT_minSpeechDuration_def Let_def)

subsection \<open>The active flags of the roster\<close>

text \<open>
  Claim C5 says that after a silent frame every speaker of the roster has
  \<open>isActive = false\<close>. The program evaluated on a session of two frames: a voiced frame at
  time 1000 creates speaker 0 and marks it active; a silent frame at time 1016, within
  \<open>minSpeechDuration\<close> of the start of the interval, clears the current speaker but leaves
  the roster as it was, with speaker 0 still active.
\<close>

theorem silence_keeps_speaker_active:
  "\<not> detectVoiceActivity silent_frame DEFAULT_silenceThreshold
   \<and> map isActive (speakersRef
        (frame_step 2 (frame_step 2 (started 2 1000) (frame_with_pitch 120) 1000) silent_frame 1016))
      = [True]
   \<and> map isActive (st_speakers
        (frame_step 2 (frame_step 2 (started 2 1000) (frame_with_pitch 120) 1000) silent_frame 1016))
      = [True]
   \<and> \<not> st_isVoiceActive
        (frame_step 2 (frame_step 2 (started 2 1000) (frame_with_pitch 120) 1000) silent_frame 1016)
   \<and> st_currentSpeakerId
        (frame_step 2 (frame_step 2 (started 2 1000) (frame_with_pitch 120) 1000) silent_frame 1016)
      = None
   \<and> lastSpeakerIdRef
        (frame_step 2 (frame_step 2 (started 2 1000) (frame_with_pitch 120) 1000) silent_frame 1016)
      = None"
  by (simp add: frame_step_def started_def detectVoiceActivity_def DEFAULT_silenceThreshold_def
      processSpeakerDetection_def detectSpeaker_def resetDetector_def createSpeakerDetector_def
      SPEAKER_CHANGE_THRESHOLD_def addSpeaker_def SPEAKER_COLORS_def createProfile_def
      DEFAULT_minSpeechDuration_def Let_def)

end
